theory Spec2Isabelle
  imports Main
begin

section \<open>JavaScript values the registry code relies on\<close>

text \<open>
  Provider and command-type identifiers are JavaScript strings at run time, so they are
  modelled as \<open>string\<close>. The process environment \<open>process.env\<close> is a partial map from
  variable names to string values. \<open>!!process.env.X\<close> is true exactly when the variable is
  present and its value is not the empty string.
\<close>

type_synonym env = "string \<rightharpoonup> string"

definition truthy_str :: "string option \<Rightarrow> bool" where
  "truthy_str v = (case v of None \<Rightarrow> False | Some s \<Rightarrow> s \<noteq> [])"

text \<open>
  The tables of the module are object literals. A bracket lookup \<open>obj[key]\<close> on an object
  literal first looks at the own properties and then at the members every object literal
  inherits from \<open>Object.prototype\<close>; only when neither has the key is the result
  \<open>undefined\<close>. The inherited members are built-in functions (recorded with their
  \<open>length\<close>) and, for the key \<open>__proto__\<close>, the prototype object itself.
\<close>

datatype proto_member = FunctionObject nat | PrototypeObject

datatype 'a js_lookup = Own 'a | Inherited proto_member | Undefined

definition Object_prototype :: "(string \<times> proto_member) list" where
  "Object_prototype =
    [(''constructor'', FunctionObject 1),
     (''__defineGetter__'', FunctionObject 2),
     (''__defineSetter__'', FunctionObject 2),
     (''hasOwnProperty'', FunctionObject 1),
     (''__lookupGetter__'', FunctionObject 1),
     (''__lookupSetter__'', FunctionObject 1),
     (''isPrototypeOf'', FunctionObject 1),
     (''propertyIsEnumerable'', FunctionObject 1),
     (''toString'', FunctionObject 0),
     (''valueOf'', FunctionObject 0),
     (''__proto__'', PrototypeObject),
     (''toLocaleString'', FunctionObject 0)]"

definition js_get :: "(string \<times> 'a) list \<Rightarrow> string \<Rightarrow> 'a js_lookup" where
  "js_get obj k =
    (case map_of obj k of
       Some v \<Rightarrow> Own v
     | None \<Rightarrow> (case map_of Object_prototype k of
                  Some m \<Rightarrow> Inherited m
                | None \<Rightarrow> Undefined))"

text \<open>
  Thrown values are data: the constructor names the JavaScript error class and carries the
  message. \<open>ProviderError\<close> (declared in \<open>errors.ts\<close> as a subclass of \<open>Error\<close>) is
  constructed from a message and optional \<open>details\<close>; \<open>NotAnError\<close> stands for a thrown
  value that is not an instance of \<open>Error\<close>.
\<close>

datatype js_error =
    Error string
  | TypeError string
  | ProviderError string "js_error option"
  | NotAnError string

text \<open>\<open>Array.prototype.indexOf\<close>: the index of the first occurrence, or \<open>-1\<close>.\<close>

fun indexOfFrom :: "'a list \<Rightarrow> 'a \<Rightarrow> nat \<Rightarrow> int" where
  "indexOfFrom [] x k = - 1"
| "indexOfFrom (y # ys) x k = (if y = x then int k else indexOfFrom ys x (Suc k))"

definition indexOf :: "'a list \<Rightarrow> 'a \<Rightarrow> int" where
  "indexOf xs x = indexOfFrom xs x 0"

section \<open>Provider registry and preference table\<close>

record ProviderInfo =
  provider :: string
  available :: bool
  defaultModel :: "string option"

definition DEFAULT_MODELS :: "(string \<times> string) list" where
  "DEFAULT_MODELS =
    [(''perplexity'', ''sonar-pro''),
     (''gemini'', ''gemini-2.5-pro''),
     (''openai'', ''gpt-4.1''),
     (''anthropic'', ''claude-sonnet-4-20250514''),
     (''openrouter'', ''google/gemini-2.5-pro''),
     (''modelbox'', ''google/gemini-2.5-pro''),
     (''xai'', ''grok-3-latest''),
     (''apizh'', ''gpt-4o-mini''),
     (''apizh-coding'', ''o3''),
     (''apizh-chinese'', ''qwen3-235b-a22b''),
     (''apizh-analysis'', ''claude-sonnet-4-20250514''),
     (''apizh-creative'', ''claude-opus-4-20250514''),
     (''apizh-math'', ''o1''),
     (''apizh-web'', ''gemini-2.5-pro-exp-03-25''),
     (''apizh-reasoning'', ''o1-mini''),
     (''apizh-cost'', ''gpt-4o-mini''),
     (''apizh-nix'', ''gpt-4.1-2025-04-14'')]"

definition PROVIDER_PREFERENCE :: "(string \<times> string list) list" where
  "PROVIDER_PREFERENCE =
    [(''web'', [''apizh-web'', ''perplexity'', ''gemini'', ''modelbox'', ''openrouter'', ''apizh'']),
     (''repo'', [''apizh-analysis'', ''gemini'', ''modelbox'', ''openrouter'', ''openai'',
                 ''perplexity'', ''anthropic'', ''xai'', ''apizh'']),
     (''plan_file'', [''apizh-cost'', ''gemini'', ''modelbox'', ''openrouter'', ''openai'',
                      ''perplexity'', ''anthropic'', ''xai'', ''apizh'']),
     (''plan_thinking'', [''apizh-reasoning'', ''openai'', ''modelbox'', ''openrouter'', ''gemini'',
                          ''anthropic'', ''perplexity'', ''xai'', ''apizh'']),
     (''doc'', [''apizh-analysis'', ''gemini'', ''modelbox'', ''openrouter'', ''openai'',
                ''perplexity'', ''anthropic'', ''xai'', ''apizh'']),
     (''ask'', [''apizh-cost'', ''openai'', ''modelbox'', ''openrouter'', ''gemini'',
                ''anthropic'', ''perplexity'', ''apizh'']),
     (''browser'', [''apizh-analysis'', ''anthropic'', ''openai'', ''modelbox'', ''openrouter'',
                    ''gemini'', ''perplexity'', ''apizh''])]"

text \<open>
  \<open>getDefaultModel\<close> is the bare lookup \<open>DEFAULT_MODELS[provider]\<close>. It has no guard and
  no \<open>throw\<close>; the sum type only makes visible that every call returns.
\<close>

definition getDefaultModel :: "string \<Rightarrow> js_error + string js_lookup" where
  "getDefaultModel prov = Inr (js_get DEFAULT_MODELS prov)"

text \<open>
  \<open>getAllProviders\<close> reads the credential variables of the environment. The dotted reads
  \<open>DEFAULT_MODELS.perplexity\<close> etc. name own properties of the table.
\<close>

definition mkInfo :: "string \<Rightarrow> bool \<Rightarrow> ProviderInfo" where
  "mkInfo p a = \<lparr> provider = p, available = a, defaultModel = map_of DEFAULT_MODELS p \<rparr>"

definition getAllProviders :: "env \<Rightarrow> ProviderInfo list" where
  "getAllProviders e =
    (let isApizhAvailable = truthy_str (e ''APIZH_API_KEY'') in
     [mkInfo ''perplexity'' (truthy_str (e ''PERPLEXITY_API_KEY'')),
      mkInfo ''gemini'' (truthy_str (e ''GEMINI_API_KEY'')),
      mkInfo ''openai'' (truthy_str (e ''OPENAI_API_KEY'')),
      mkInfo ''anthropic'' (truthy_str (e ''ANTHROPIC_API_KEY'')),
      mkInfo ''openrouter'' (truthy_str (e ''OPENROUTER_API_KEY'')),
      mkInfo ''modelbox'' (truthy_str (e ''MODELBOX_API_KEY'')),
      mkInfo ''xai'' (truthy_str (e ''XAI_API_KEY'')),
      mkInfo ''apizh'' isApizhAvailable,
      mkInfo ''apizh-coding'' isApizhAvailable,
      mkInfo ''apizh-chinese'' isApizhAvailable,
      mkInfo ''apizh-analysis'' isApizhAvailable,
      mkInfo ''apizh-creative'' isApizhAvailable,
      mkInfo ''apizh-math'' isApizhAvailable,
      mkInfo ''apizh-web'' isApizhAvailable,
      mkInfo ''apizh-reasoning'' isApizhAvailable,
      mkInfo ''apizh-cost'' isApizhAvailable,
      mkInfo ''apizh-nix'' isApizhAvailable])"

definition getProviderInfo :: "env \<Rightarrow> string \<Rightarrow> ProviderInfo option" where
  "getProviderInfo e prov = find (\<lambda>p. provider p = prov) (getAllProviders e)"

text \<open>\<open>!!getProviderInfo(provider)?.available\<close>: a missing entry gives \<open>false\<close>.\<close>

definition info_available :: "ProviderInfo option \<Rightarrow> bool" where
  "info_available i = (case i of None \<Rightarrow> False | Some p \<Rightarrow> available p)"

definition isProviderAvailable :: "env \<Rightarrow> string \<Rightarrow> bool" where
  "isProviderAvailable e prov = info_available (getProviderInfo e prov)"

definition getAvailableProviders :: "env \<Rightarrow> ProviderInfo list" where
  "getAvailableProviders e = filter available (getAllProviders e)"

section \<open>Fallback selector\<close>

text \<open>
  The \<open>for\<close> loop of \<open>getNextAvailableProvider\<close>, from index \<open>i\<close>. The result pairs the
  lines written with \<open>console.log\<close> (one per skipped candidate, in order) with the
  returned provider, \<open>None\<close> standing for \<open>undefined\<close>.
\<close>

definition not_available_msg :: "string \<Rightarrow> string" where
  "not_available_msg p = ''Provider '' @ p @ '' is not available''"

function scan :: "string list \<Rightarrow> ProviderInfo list \<Rightarrow> nat \<Rightarrow> string list \<times> string option" where
  "scan preferenceOrder availableProviders i =
    (if i < length preferenceOrder then
       (let prov = preferenceOrder ! i;
            providerInfo = find (\<lambda>p. provider p = prov) availableProviders
        in if info_available providerInfo then ([], Some prov)
           else (case scan preferenceOrder availableProviders (i + 1) of
                   (logs, r) \<Rightarrow> (not_available_msg prov # logs, r)))
     else ([], None))"
  by pat_completeness auto
termination
  by (relation "measure (\<lambda>(preferenceOrder, availableProviders, i). length preferenceOrder - i)") auto

declare scan.simps [simp del]

text \<open>
  \<open>currentProvider ? preferenceOrder.indexOf(currentProvider) + 1 : 0\<close>: an omitted or
  empty \<open>currentProvider\<close> is falsy.
\<close>

definition startIndex :: "string list \<Rightarrow> string option \<Rightarrow> nat" where
  "startIndex preferenceOrder currentProvider =
    (case currentProvider of
       None \<Rightarrow> 0
     | Some c \<Rightarrow> if c = [] then 0 else nat (indexOf preferenceOrder c + 1))"

text \<open>
  When the lookup in the preference table yields an inherited member instead of an array,
  the value is truthy, so the guard does not throw. Such a value has no \<open>indexOf\<close>
  (calling it is a \<open>TypeError\<close>); a function's \<open>length\<close> is its arity and its indexed
  reads are \<open>undefined\<close>, which no registry entry matches; the prototype object has no
  \<open>length\<close>, so the loop condition \<open>i < undefined\<close> is false at once.
\<close>

definition getNextAvailableProvider ::
    "env \<Rightarrow> string \<Rightarrow> string option \<Rightarrow> js_error + (string list \<times> string option)" where
  "getNextAvailableProvider e commandType currentProvider =
    (case js_get PROVIDER_PREFERENCE commandType of
       Undefined \<Rightarrow> Inl (Error (''Unknown command type: '' @ commandType))
     | Own preferenceOrder \<Rightarrow>
         (let availableProviders = getAllProviders e
          in Inr (scan preferenceOrder availableProviders (startIndex preferenceOrder currentProvider)))
     | Inherited m \<Rightarrow>
         (if truthy_str currentProvider
          then Inl (TypeError ''preferenceOrder.indexOf is not a function'')
          else (case m of
                  FunctionObject n \<Rightarrow> Inr (replicate n (not_available_msg ''undefined''), None)
                | PrototypeObject \<Rightarrow> Inr ([], None))))"

section \<open>The streaming contract of commands\<close>

text \<open>
  \<open>CommandGenerator\<close> is an asynchronous generator of string chunks. A generator is
  represented by what it does when it is resumed: yield a chunk and suspend again,
  return, or throw. The chunk sequence of a command is finite, so the representation is
  a datatype. Console output and telemetry are not part of the chunk stream.
\<close>

datatype ('c, 'x) generator =
    Yield 'c "('c, 'x) generator"
  | Return
  | Throw 'x

text \<open>
  \<open>yield* inner\<close> followed by the statements \<open>rest\<close>: every chunk of \<open>inner\<close> is passed
  on, a throw of \<open>inner\<close> surfaces at the \<open>yield*\<close> expression, and after its return the
  function body continues.
\<close>

fun yield_star :: "('c, 'x) generator \<Rightarrow> ('c, 'x) generator \<Rightarrow> ('c, 'x) generator" where
  "yield_star (Yield c g) rest = Yield c (yield_star g rest)"
| "yield_star Return rest = rest"
| "yield_star (Throw x) rest = Throw x"

text \<open>\<open>try { body } catch (error) { handler }\<close> around a generator body.\<close>

fun try_catch :: "('c, 'x) generator \<Rightarrow> ('x \<Rightarrow> ('c, 'x) generator) \<Rightarrow> ('c, 'x) generator" where
  "try_catch (Yield c g) handler = Yield c (try_catch g handler)"
| "try_catch Return handler = Return"
| "try_catch (Throw x) handler = handler x"

text \<open>
  The caller's side. One call of \<open>next()\<close> gives a chunk, the done signal, or a rejection
  with the thrown error; a generator that has returned or thrown is closed and answers
  every further \<open>next()\<close> with the done signal.
\<close>

datatype ('c, 'x) signal = Value 'c | Done | Raised 'x

fun next_signal :: "('c, 'x) generator \<Rightarrow> ('c, 'x) signal \<times> ('c, 'x) generator" where
  "next_signal (Yield c g) = (Value c, g)"
| "next_signal Return = (Done, Return)"
| "next_signal (Throw x) = (Raised x, Return)"

text \<open>A caller that calls \<open>next()\<close> exactly \<open>n\<close> times and then abandons the generator.\<close>

fun pulls :: "nat \<Rightarrow> ('c, 'x) generator \<Rightarrow> ('c, 'x) signal list" where
  "pulls 0 g = []"
| "pulls (Suc n) g = (case next_signal g of (s, g') \<Rightarrow> s # pulls n g')"

text \<open>
  A caller that iterates with \<open>for await\<close>: it takes chunks until the done signal or a
  rejection ends the loop.
\<close>

fun for_await :: "('c, 'x) generator \<Rightarrow> ('c, 'x) signal list" where
  "for_await (Yield c g) = Value c # for_await g"
| "for_await Return = [Done]"
| "for_await (Throw x) = [Raised x]"

text \<open>The chunks a producer yields, in the order it yields them, and how it ends.\<close>

fun yielded :: "('c, 'x) generator \<Rightarrow> 'c list" where
  "yielded (Yield c g) = c # yielded g"
| "yielded Return = []"
| "yielded (Throw x) = []"

fun ending :: "('c, 'x) generator \<Rightarrow> ('c, 'x) signal" where
  "ending (Yield c g) = ending g"
| "ending Return = Done"
| "ending (Throw x) = Raised x"

text \<open>
  \<open>String.prototype.trim\<close> removes white space from both ends, so \<open>!s.trim()\<close> holds
  exactly when every character of \<open>s\<close> is white space. Model strings have characters
  with codes below 256; the white space among them is tab, line feed, vertical tab, form
  feed, carriage return, space and no-break space.
\<close>

definition js_whitespace :: "char \<Rightarrow> bool" where
  "js_whitespace c = (of_char c \<in> {9, 10, 11, 12, 13, 32, 160 :: nat})"

definition blank :: "string \<Rightarrow> bool" where
  "blank s = list_all js_whitespace s"

subsection \<open>NixCommand.execute\<close>

text \<open>
  The help text and the delegate \<open>assistCommand.execute\<close> are parameters. The \<open>catch\<close>
  block writes to the console and throws the caught error again.
\<close>

definition NixCommand_execute ::
    "string \<Rightarrow> (string \<Rightarrow> 'opts \<Rightarrow> (string, 'x) generator) \<Rightarrow> string \<Rightarrow> 'opts \<Rightarrow> (string, 'x) generator" where
  "NixCommand_execute getHelpMessage assistCommand_execute query options =
    (if blank query then Yield getHelpMessage Return
     else try_catch (yield_star (assistCommand_execute query options) Return)
            (\<lambda>error. Throw error))"

subsection \<open>AskCommand.execute\<close>

text \<open>
  The collaborators the command calls are parameters: the provider factory, the provider
  client it returns, the document fetcher, the configuration and the telemetry callback
  of the options. The factory, the methods of the client, the fetcher and the callback
  can throw, so each of them returns a sum or an optional error.
\<close>

record ModelOptions =
  mo_model :: string
  mo_maxTokens :: nat
  mo_debug :: "bool option"
  mo_systemPrompt :: "string option"
  mo_reasoningEffort :: "string option"
  mo_webSearch :: "bool option"

record Telemetry =
  tm_promptTokens :: "nat option"
  tm_completionTokens :: "nat option"
  tm_provider :: string
  tm_model :: string

text \<open>
  A provider client: \<open>getModel\<close> (present on the base APIZH client), \<open>executePrompt\<close>, and
  the value of \<open>tokenUsage\<close> after the call (\<open>None\<close> when the property is missing or
  falsy), as prompt and completion token counts.
\<close>

record ProviderClient =
  getModel :: "ModelOptions \<Rightarrow> js_error + string option"
  executePrompt :: "string \<Rightarrow> ModelOptions \<Rightarrow> js_error + string"
  tokenUsage :: "(nat \<times> nat) option"

record CommandOptions =
  opt_provider :: "string option"
  opt_model :: "string option"
  opt_maxTokens :: "nat option"
  opt_debug :: "bool option"
  opt_withDoc :: "string list option"
  opt_reasoningEffort :: "string option"
  opt_webSearch :: "bool option"
  opt_trackTelemetry :: "(Telemetry \<Rightarrow> js_error option) option"

record Config =
  cfg_apizh_provider :: "string option"
  cfg_reasoningEffort :: "string option"

record Collaborators =
  createProvider :: "string \<Rightarrow> js_error + ProviderClient"
  fetchDocContent :: "string \<Rightarrow> bool \<Rightarrow> js_error + string"
  defaultMaxTokens :: nat

text \<open>\<open>options?.field\<close> on the optional options object.\<close>

definition opt :: "CommandOptions option \<Rightarrow> (CommandOptions \<Rightarrow> 'a option) \<Rightarrow> 'a option" where
  "opt options field = (case options of None \<Rightarrow> None | Some opts \<Rightarrow> field opts)"

text \<open>\<open>a || b\<close> for an optional string and for an optional number.\<close>

definition str_or :: "string option \<Rightarrow> string \<Rightarrow> string" where
  "str_or a b = (case a of None \<Rightarrow> b | Some s \<Rightarrow> if s = [] then b else s)"

definition num_or :: "nat option \<Rightarrow> nat \<Rightarrow> nat" where
  "num_or a b = (case a of None \<Rightarrow> b | Some n \<Rightarrow> if n = 0 then b else n)"

text \<open>\<open>error instanceof Error ? error.message : fallback\<close>.\<close>

fun message_or :: "js_error \<Rightarrow> string \<Rightarrow> string" where
  "message_or (Error m) fallback = m"
| "message_or (TypeError m) fallback = m"
| "message_or (ProviderError m d) fallback = m"
| "message_or (NotAnError v) fallback = fallback"

text \<open>\<open>Array.prototype.join\<close>.\<close>

fun join :: "string \<Rightarrow> string list \<Rightarrow> string" where
  "join sep [] = []"
| "join sep [x] = x"
| "join sep (x # y # ys) = x @ sep @ join sep (y # ys)"

text \<open>
  \<open>toUpperCase\<close> on the letters a to z. It is applied to a provider name that has an
  entry in the registry, and those names consist of lower-case letters and hyphens.
\<close>

definition upper_char :: "char \<Rightarrow> char" where
  "upper_char c =
    (if 97 \<le> (of_char c :: nat) \<and> (of_char c :: nat) \<le> 122
     then char_of ((of_char c :: nat) - 32) else c)"

definition toUpperCase :: "string \<Rightarrow> string" where
  "toUpperCase s = map upper_char s"

definition provider_lines :: "ProviderInfo list \<Rightarrow> string" where
  "provider_lines ps = join ''\<newline>'' (map (\<lambda>p. ''- '' @ provider p) ps)"

definition providerName_of :: "Config \<Rightarrow> CommandOptions option \<Rightarrow> string" where
  "providerName_of config options =
    str_or (opt options opt_provider) (str_or (cfg_apizh_provider config) ''apizh'')"

text \<open>
  The choice of the model when the options give none. It runs after the provider name has
  been found in the registry, so the two tables are only ever asked for registry names.
  The base APIZH provider is created early and asked for its recommendation.
\<close>

definition apizhModels :: "(string \<times> string) list" where
  "apizhModels =
    [(''apizh-coding'', ''claude-opus-4-20250514-thinking''),
     (''apizh-chinese'', ''qwen3-235b-a22b''),
     (''apizh-analysis'', ''claude-sonnet-4-20250514''),
     (''apizh-creative'', ''claude-opus-4-20250514''),
     (''apizh-math'', ''o1''),
     (''apizh-web'', ''gemini-2.5-pro-exp-03-25''),
     (''apizh-reasoning'', ''o1-mini''),
     (''apizh-cost'', ''gpt-4o-mini'')]"

definition otherProviderModels :: "(string \<times> string) list" where
  "otherProviderModels =
    [(''openai'', ''gpt-4.1''),
     (''anthropic'', ''claude-sonnet-4-20250514''),
     (''gemini'', ''gemini-2.5-pro''),
     (''perplexity'', ''sonar-pro''),
     (''openrouter'', ''openai/gpt-4.1''),
     (''modelbox'', ''openai/gpt-4.1''),
     (''xai'', ''grok-3-latest''),
     (''apizh'', ''gpt-4o-mini'')]"

definition resolveModel :: "Collaborators \<Rightarrow> string \<Rightarrow> CommandOptions option \<Rightarrow> js_error + string" where
  "resolveModel w providerName options =
    (let model = str_or (opt options opt_model) [] in
     if model \<noteq> [] then Inr model
     else if providerName = ''apizh'' then
       (case createProvider w providerName of
          Inl err \<Rightarrow> Inl err
        | Inr tempProvider \<Rightarrow>
            (let tempOptions =
                   \<lparr> mo_model = [],
                     mo_maxTokens = num_or (opt options opt_maxTokens) (defaultMaxTokens w),
                     mo_debug = opt options opt_debug,
                     mo_systemPrompt = None,
                     mo_reasoningEffort = None,
                     mo_webSearch = None \<rparr>
             in case getModel tempProvider tempOptions of
                  Inl err \<Rightarrow> Inl err
                | Inr m \<Rightarrow> Inr (str_or m ''gpt-4o-mini'')))
     else if take 6 providerName = ''apizh-''
       then Inr (str_or (map_of apizhModels providerName) ''gpt-4o-mini'')
     else Inr (str_or (map_of otherProviderModels providerName) ''gpt-4.1''))"

text \<open>
  The loop over the \<open>--with-doc\<close> URLs: a blank URL is skipped, a fetch that throws is
  skipped, and so is a fetched text that is empty or blank.
\<close>

fun fetch_docs :: "Collaborators \<Rightarrow> bool \<Rightarrow> string list \<Rightarrow> string list" where
  "fetch_docs w dbg [] = []"
| "fetch_docs w dbg (docUrl # rest) =
    (if blank docUrl then fetch_docs w dbg rest
     else (case fetchDocContent w docUrl dbg of
             Inl fetchExtractError \<Rightarrow> fetch_docs w dbg rest
           | Inr cleanedText \<Rightarrow>
               if cleanedText \<noteq> [] \<and> \<not> blank cleanedText
               then cleanedText # fetch_docs w dbg rest
               else fetch_docs w dbg rest))"

text \<open>
  The source writes its separators with doubled backslashes, so they are the two
  characters backslash and \<open>n\<close>, not a line feed; a backtick of the documents is replaced
  by two backslashes and a backtick.
\<close>

definition bs_n :: string where
  "bs_n = [CHR 0x5C, CHR ''n'']"

definition escape_backticks :: "string \<Rightarrow> string" where
  "escape_backticks s =
    concat (map (\<lambda>c. if c = CHR 0x60 then [CHR 0x5C, CHR 0x5C, CHR 0x60] else [c]) s)"

definition finalQuery_of :: "Collaborators \<Rightarrow> string \<Rightarrow> CommandOptions option \<Rightarrow> string" where
  "finalQuery_of w query options =
    (case opt options opt_withDoc of
       None \<Rightarrow> query
     | Some withDoc \<Rightarrow>
         if length withDoc > 0 then
           (let docContents =
                  fetch_docs w (case opt options opt_debug of None \<Rightarrow> False | Some d \<Rightarrow> d) withDoc
            in if length docContents > 0 then
                 (let docContent = join (bs_n @ bs_n @ ''---'' @ bs_n @ bs_n) docContents;
                      escapedDocContent = escape_backticks docContent
                  in ''Document Content:'' @ bs_n @ ''```'' @ bs_n @ escapedDocContent @ bs_n
                     @ ''```'' @ bs_n @ bs_n @ ''Question:'' @ bs_n @ query)
               else query)
         else query)"

definition modelOptions_of :: "Config \<Rightarrow> CommandOptions option \<Rightarrow> string \<Rightarrow> nat \<Rightarrow> ModelOptions" where
  "modelOptions_of config options model maxTokens =
    \<lparr> mo_model = model,
      mo_maxTokens = maxTokens,
      mo_debug = opt options opt_debug,
      mo_systemPrompt =
        Some ''You are a helpful assistant. Answer the following question directly and concisely.'',
      mo_reasoningEffort =
        (case opt options opt_reasoningEffort of
           None \<Rightarrow> cfg_reasoningEffort config
         | Some r \<Rightarrow> Some r),
      mo_webSearch = opt options opt_webSearch \<rparr>"

text \<open>\<open>options?.trackTelemetry?.(data)\<close>: \<open>Some error\<close> when the callback throws.\<close>

definition trackTelemetry :: "CommandOptions option \<Rightarrow> Telemetry \<Rightarrow> js_error option" where
  "trackTelemetry options data =
    (case opt options opt_trackTelemetry of None \<Rightarrow> None | Some callback \<Rightarrow> callback data)"

text \<open>
  The record handed to the telemetry callback: with the token counts when the client
  reports a usage, without them otherwise.
\<close>

definition telemetry_of :: "ProviderClient \<Rightarrow> string \<Rightarrow> string \<Rightarrow> Telemetry" where
  "telemetry_of providerClient providerName model =
    (case tokenUsage providerClient of
       Some (promptTokens, completionTokens) \<Rightarrow>
         \<lparr> tm_promptTokens = Some promptTokens,
           tm_completionTokens = Some completionTokens,
           tm_provider = providerName, tm_model = model \<rparr>
     | None \<Rightarrow>
         \<lparr> tm_promptTokens = None, tm_completionTokens = None,
           tm_provider = providerName, tm_model = model \<rparr>)"

text \<open>
  The body of the \<open>try\<close> block: the provider call, then the telemetry callback. \<open>Inl\<close> is
  an error thrown inside the block.
\<close>

definition try_body ::
    "ProviderClient \<Rightarrow> CommandOptions option \<Rightarrow> string \<Rightarrow> string \<Rightarrow> string \<Rightarrow> ModelOptions
       \<Rightarrow> js_error + string" where
  "try_body providerClient options providerName model finalQuery modelOptions =
    (case executePrompt providerClient finalQuery modelOptions of
       Inl error \<Rightarrow> Inl error
     | Inr answer \<Rightarrow>
         (case trackTelemetry options (telemetry_of providerClient providerName model) of
            Some error \<Rightarrow> Inl error
          | None \<Rightarrow> Inr answer))"

definition no_providers_message :: string where
  "no_providers_message =
    ''No AI providers are currently available. Please run 'vibe-tools install' to set up your API keys.''"

definition invalid_provider_message :: "string \<Rightarrow> ProviderInfo list \<Rightarrow> string" where
  "invalid_provider_message providerName availableProviders =
    ''Invalid provider: '' @ providerName @ ''.\<newline>'' @ ''Available providers:\<newline>''
    @ provider_lines availableProviders"

definition unavailable_provider_message :: "string \<Rightarrow> ProviderInfo list \<Rightarrow> string" where
  "unavailable_provider_message providerName availableProviders =
    ''The '' @ providerName @ '' provider is not available. Please set ''
    @ toUpperCase providerName @ ''_API_KEY in your environment.\<newline>''
    @ ''Currently available providers:\<newline>'' @ provider_lines availableProviders"

definition AskCommand_execute ::
    "Collaborators \<Rightarrow> env \<Rightarrow> Config \<Rightarrow> string \<Rightarrow> CommandOptions option
       \<Rightarrow> (string, js_error) generator" where
  "AskCommand_execute w e config query options =
    (let availableProviders = filter available (getAllProviders e) in
     if length availableProviders = 0 then Throw (ProviderError no_providers_message None)
     else
       (let providerName = providerName_of config options in
        case find (\<lambda>p. provider p = providerName) (getAllProviders e) of
          None \<Rightarrow>
            Throw (ProviderError (invalid_provider_message providerName availableProviders) None)
        | Some providerInfo \<Rightarrow>
            if \<not> available providerInfo then
              Throw (ProviderError (unavailable_provider_message providerName availableProviders) None)
            else
              (case resolveModel w providerName options of
                 Inl err \<Rightarrow> Throw err
               | Inr model \<Rightarrow>
                   (case createProvider w providerName of
                      Inl err \<Rightarrow> Throw err
                    | Inr providerClient \<Rightarrow>
                        (let maxTokens = num_or (opt options opt_maxTokens) (defaultMaxTokens w);
                             finalQuery = finalQuery_of w query options;
                             modelOptions = modelOptions_of config options model maxTokens
                         in case try_body providerClient options providerName model finalQuery
                                   modelOptions of
                              Inl error \<Rightarrow>
                                Throw (ProviderError
                                  (message_or error ''Unknown error during ask command execution'')
                                  (Some error))
                            | Inr answer \<Rightarrow> Yield answer Return)))))"

section \<open>Auxiliary notions for the proofs\<close>

text \<open>The availability test the loop applies to a candidate, as a predicate on identifiers.\<close>

definition avail :: "ProviderInfo list \<Rightarrow> string \<Rightarrow> bool" where
  "avail av q = info_available (find (\<lambda>p. provider p = q) av)"

text \<open>Concrete collaborators on which the command is evaluated below.\<close>

definition example_client :: ProviderClient where
  "example_client =
    \<lparr> getModel = (\<lambda>tempOptions. Inr None),
      executePrompt = (\<lambda>finalQuery modelOptions. Inr ''42''),
      tokenUsage = None \<rparr>"

definition example_collaborators :: Collaborators where
  "example_collaborators =
    \<lparr> createProvider = (\<lambda>providerName. Inr example_client),
      fetchDocContent = (\<lambda>docUrl dbg. Inl (Error ''offline'')),
      defaultMaxTokens = 8000 \<rparr>"

definition example_config :: Config where
  "example_config = \<lparr> cfg_apizh_provider = None, cfg_reasoningEffort = None \<rparr>"

definition example_options :: "(Telemetry \<Rightarrow> js_error option) option \<Rightarrow> CommandOptions" where
  "example_options callback =
    \<lparr> opt_provider = Some ''openai'', opt_model = None, opt_maxTokens = None,
      opt_debug = None, opt_withDoc = None, opt_reasoningEffort = None,
      opt_webSearch = None, opt_trackTelemetry = callback \<rparr>"

section \<open>Properties of the registry and the selector\<close>

subsection \<open>Helper lemmas\<close>

lemma indexOfFrom_notin: "x \<notin> set xs \<Longrightarrow> indexOfFrom xs x k = - 1"
  by (induction xs arbitrary: k) auto

lemma indexOfFrom_in:
  "x \<in> set xs \<Longrightarrow> indexOfFrom xs x k = int (k + length (takeWhile (\<lambda>y. y \<noteq> x) xs))"
  by (induction xs arbitrary: k) auto

lemma startIndex_None: "startIndex pref None = 0"
  by (simp add: startIndex_def)

lemma startIndex_notin: "p \<notin> set pref \<Longrightarrow> startIndex pref (Some p) = 0"
  by (simp add: startIndex_def indexOf_def indexOfFrom_notin)

lemma startIndex_in:
  "p \<in> set pref \<Longrightarrow> p \<noteq> [] \<Longrightarrow>
   startIndex pref (Some p) = Suc (length (takeWhile (\<lambda>y. y \<noteq> p) pref))"
  by (simp add: startIndex_def indexOf_def indexOfFrom_in)

lemma avail_fold: "info_available (find (\<lambda>p. provider p = q) av) = avail av q"
  by (simp add: avail_def)

text \<open>The loop returns the first available candidate from its start index and logs the ones before it.\<close>

lemma scan_eq:
  "scan pref av i =
     (map not_available_msg (takeWhile (\<lambda>q. \<not> avail av q) (drop i pref)),
      find (avail av) (drop i pref))"
proof (induction pref av i rule: scan.induct)
  case (1 pref av i)
  show ?case
  proof (cases "i < length pref")
    case False
    then show ?thesis by (simp add: scan.simps [of pref av i])
  next
    case True
    then have d: "drop i pref = pref ! i # drop (Suc i) pref"
      by (simp add: Cons_nth_drop_Suc)
    show ?thesis
    proof (cases "avail av (pref ! i)")
      case True
      with \<open>i < length pref\<close> d show ?thesis
        by (simp add: scan.simps [of pref av i] avail_fold)
    next
      case False
      with \<open>i < length pref\<close> have "scan pref av (i + 1) =
         (map not_available_msg (takeWhile (\<lambda>q. \<not> avail av q) (drop (i + 1) pref)),
          find (avail av) (drop (i + 1) pref))"
        using "1.IH" [OF _ refl refl] by (simp add: avail_fold)
      with False \<open>i < length pref\<close> d show ?thesis
        by (simp add: scan.simps [of pref av i] avail_fold)
    qed
  qed
qed

lemma avail_isProviderAvailable: "avail (getAllProviders e) q = isProviderAvailable e q"
  by (simp add: avail_def isProviderAvailable_def getProviderInfo_def)

lemma js_get_Own_iff: "js_get obj k = Own v \<longleftrightarrow> map_of obj k = Some v"
  by (auto simp: js_get_def split: option.splits)

text \<open>Every registered preference list is free of duplicates and of empty identifiers.\<close>

lemma pref_distinct:
  "js_get PROVIDER_PREFERENCE t = Own pref \<Longrightarrow> distinct pref \<and> [] \<notin> set pref"
  unfolding js_get_Own_iff
  by (drule map_of_SomeD) (auto simp: PROVIDER_PREFERENCE_def)

lemma getNext_Own:
  assumes "js_get PROVIDER_PREFERENCE t = Own pref"
  shows "getNextAvailableProvider e t cur =
     Inr (map not_available_msg
            (takeWhile (\<lambda>q. \<not> isProviderAvailable e q) (drop (startIndex pref cur) pref)),
          find (isProviderAvailable e) (drop (startIndex pref cur) pref))"
proof -
  have "avail (getAllProviders e) = isProviderAvailable e"
    by (rule ext) (simp add: avail_isProviderAvailable)
  with assms show ?thesis
    by (simp add: getNextAvailableProvider_def scan_eq)
qed

lemma first_occurrence_length:
  assumes "i < length xs" "xs ! i = p" "\<forall>j<i. xs ! j \<noteq> p"
  shows "length (takeWhile (\<lambda>y. y \<noteq> p) xs) = i"
proof -
  have le: "i \<le> length (takeWhile (\<lambda>y. y \<noteq> p) xs)"
    using assms by (intro length_takeWhile_less_P_nth) auto
  have "\<not> i < length (takeWhile (\<lambda>y. y \<noteq> p) xs)"
  proof
    assume lt: "i < length (takeWhile (\<lambda>y. y \<noteq> p) xs)"
    then have "takeWhile (\<lambda>y. y \<noteq> p) xs ! i \<in> set (takeWhile (\<lambda>y. y \<noteq> p) xs)"
      by simp
    then have "takeWhile (\<lambda>y. y \<noteq> p) xs ! i \<noteq> p"
      by (auto dest: set_takeWhileD)
    with lt assms(2) show False by (simp add: takeWhile_nth)
  qed
  with le show ?thesis by simp
qed

text \<open>Availability of an identifier, read off the registry.\<close>

lemma isProviderAvailable_eval:
  "isProviderAvailable e p =
     (if p = ''perplexity'' then truthy_str (e ''PERPLEXITY_API_KEY'')
      else if p = ''gemini'' then truthy_str (e ''GEMINI_API_KEY'')
      else if p = ''openai'' then truthy_str (e ''OPENAI_API_KEY'')
      else if p = ''anthropic'' then truthy_str (e ''ANTHROPIC_API_KEY'')
      else if p = ''openrouter'' then truthy_str (e ''OPENROUTER_API_KEY'')
      else if p = ''modelbox'' then truthy_str (e ''MODELBOX_API_KEY'')
      else if p = ''xai'' then truthy_str (e ''XAI_API_KEY'')
      else if p \<in> {''apizh'', ''apizh-coding'', ''apizh-chinese'', ''apizh-analysis'',
                    ''apizh-creative'', ''apizh-math'', ''apizh-web'', ''apizh-reasoning'',
                    ''apizh-cost'', ''apizh-nix''} then truthy_str (e ''APIZH_API_KEY'')
      else False)"
  by (simp add: isProviderAvailable_def getProviderInfo_def getAllProviders_def mkInfo_def
      info_available_def Let_def)

lemma ask_list:
  "js_get PROVIDER_PREFERENCE ''ask'' =
     Own [''apizh-cost'', ''openai'', ''modelbox'', ''openrouter'', ''gemini'',
          ''anthropic'', ''perplexity'', ''apizh'']"
  by (simp add: js_get_def PROVIDER_PREFERENCE_def)

lemma ask_startIndex:
  "startIndex [''apizh-cost'', ''openai'', ''modelbox'', ''openrouter'', ''gemini'',
          ''anthropic'', ''perplexity'', ''apizh''] None = 0"
  "startIndex [''apizh-cost'', ''openai'', ''modelbox'', ''openrouter'', ''gemini'',
          ''anthropic'', ''perplexity'', ''apizh''] (Some ''openai'') = Suc (Suc 0)"
  "startIndex [''apizh-cost'', ''openai'', ''modelbox'', ''openrouter'', ''gemini'',
          ''anthropic'', ''perplexity'', ''apizh''] (Some ''gemini'') = Suc (Suc (Suc (Suc (Suc 0))))"
  by (simp_all add: startIndex_def indexOf_def)

lemma providers_distinct: "distinct (map provider (getAllProviders e))"
  by (simp add: getAllProviders_def mkInfo_def Let_def)

lemma find_distinct_key:
  "distinct (map f xs) \<Longrightarrow> x \<in> set xs \<Longrightarrow> find (\<lambda>y. f y = f x) xs = Some x"
  by (induction xs) (auto simp: rev_image_eqI)

text \<open>
  An identifier that is neither a key of the preference table nor the name of an inherited
  member takes the guard's \<open>throw\<close>.
\<close>

lemma unknown_command_type_throws:
  assumes "t \<notin> fst ` set PROVIDER_PREFERENCE" and "t \<notin> fst ` set Object_prototype"
  shows "getNextAvailableProvider e t cur = Inl (Error (''Unknown command type: '' @ t))"
proof -
  from assms have "map_of PROVIDER_PREFERENCE t = None" "map_of Object_prototype t = None"
    by (simp_all add: map_of_eq_None_iff)
  then show ?thesis by (simp add: getNextAvailableProvider_def js_get_def)
qed

lemma nonexistent_throws:
  "getNextAvailableProvider e ''nonexistent'' cur =
     Inl (Error ''Unknown command type: nonexistent'')"
  by (simp add: getNextAvailableProvider_def js_get_def PROVIDER_PREFERENCE_def
      Object_prototype_def)

subsection \<open>Selection of the most preferred available provider\<close>

text \<open>
  Claim C1. For a command type \<open>t\<close> with registered, non-empty preference list \<open>pref\<close> and
  an environment in which some listed provider is available, the call with
  \<open>currentProvider\<close> omitted returns the provider at some index \<open>i\<close> of the list which is
  available and such that every index of an available provider is at least \<open>i\<close>.
\<close>

theorem getNextAvailableProvider_most_preferred:
  assumes "js_get PROVIDER_PREFERENCE t = Own pref"
    and "pref \<noteq> []"
    and "\<exists>p \<in> set pref. isProviderAvailable e p"
  shows "\<exists>logs i. getNextAvailableProvider e t None = Inr (logs, Some (pref ! i))
           \<and> i < length pref
           \<and> isProviderAvailable e (pref ! i)
           \<and> (\<forall>j < length pref. isProviderAvailable e (pref ! j) \<longrightarrow> i \<le> j)"
proof -
  from assms(3) have "find (isProviderAvailable e) pref \<noteq> None"
    by (auto simp: find_None_iff)
  then obtain q where q: "find (isProviderAvailable e) pref = Some q" by auto
  then obtain i where i: "i < length pref" "isProviderAvailable e (pref ! i)" "q = pref ! i"
      "\<forall>j<i. \<not> isProviderAvailable e (pref ! j)"
    by (auto simp: find_Some_iff)
  have "\<forall>j < length pref. isProviderAvailable e (pref ! j) \<longrightarrow> i \<le> j"
    using i(4) by (meson not_le_imp_less)
  with i q show ?thesis
    using getNext_Own [OF assms(1), of e None] by (auto simp: startIndex_None)
qed

theorem getNextAvailableProvider_most_preferred_witness:
  "js_get PROVIDER_PREFERENCE ''ask'' =
     Own [''apizh-cost'', ''openai'', ''modelbox'', ''openrouter'', ''gemini'',
          ''anthropic'', ''perplexity'', ''apizh'']
   \<and> isProviderAvailable [''GEMINI_API_KEY'' \<mapsto> ''g-key''] ''gemini''
   \<and> (\<exists>logs i. getNextAvailableProvider [''GEMINI_API_KEY'' \<mapsto> ''g-key''] ''ask'' None =
          Inr (logs, Some ([''apizh-cost'', ''openai'', ''modelbox'', ''openrouter'', ''gemini'',
                            ''anthropic'', ''perplexity'', ''apizh''] ! i))
        \<and> i < 8
        \<and> isProviderAvailable [''GEMINI_API_KEY'' \<mapsto> ''g-key'']
             ([''apizh-cost'', ''openai'', ''modelbox'', ''openrouter'', ''gemini'',
               ''anthropic'', ''perplexity'', ''apizh''] ! i))"
proof -
  let ?L = "[''apizh-cost'', ''openai'', ''modelbox'', ''openrouter'', ''gemini'',
             ''anthropic'', ''perplexity'', ''apizh'']"
  let ?e = "[''GEMINI_API_KEY'' \<mapsto> ''g-key'']"
  have av: "isProviderAvailable ?e ''gemini''"
    by (simp add: isProviderAvailable_eval truthy_str_def)
  then have ex: "\<exists>p \<in> set ?L. isProviderAvailable ?e p" by simp
  have ne: "?L \<noteq> []" by simp
  from getNextAvailableProvider_most_preferred [OF ask_list ne ex]
  obtain logs i where "getNextAvailableProvider ?e ''ask'' None = Inr (logs, Some (?L ! i))"
    "i < length ?L" "isProviderAvailable ?e (?L ! i)" by blast
  then have "\<exists>logs i. getNextAvailableProvider ?e ''ask'' None = Inr (logs, Some (?L ! i))
      \<and> i < 8 \<and> isProviderAvailable ?e (?L ! i)"
    by (intro exI [of _ logs] exI [of _ i]) simp
  with ask_list av show ?thesis by blast
qed

subsection \<open>Selection after a provider that was already tried\<close>

text \<open>
  Claim C2. When \<open>p\<close> first occurs at index \<open>i\<close> of the registered list of \<open>t\<close>, the call
  with \<open>currentProvider = p\<close> scans exactly the entries after index \<open>i\<close>: the skipped
  candidates it logs and the candidate it returns are taken from \<open>drop (Suc i) pref\<close>.
  Hence a returned provider sits at an index greater than \<open>i\<close>, is not \<open>p\<close>, and is none
  of the entries at indices up to \<open>i\<close>.
\<close>

theorem getNextAvailableProvider_after_current:
  assumes "js_get PROVIDER_PREFERENCE t = Own pref"
    and "i < length pref" and "pref ! i = p" and "\<forall>j<i. pref ! j \<noteq> p"
  shows "getNextAvailableProvider e t (Some p) =
           Inr (map not_available_msg
                  (takeWhile (\<lambda>q. \<not> isProviderAvailable e q) (drop (Suc i) pref)),
                find (isProviderAvailable e) (drop (Suc i) pref))
         \<and> (\<forall>logs q. getNextAvailableProvider e t (Some p) = Inr (logs, Some q) \<longrightarrow>
               q \<noteq> p \<and> q \<notin> set (take (Suc i) pref)
               \<and> (\<exists>k. i < k \<and> k < length pref \<and> pref ! k = q))"
proof -
  from pref_distinct [OF assms(1)] have dist: "distinct pref" and ne: "[] \<notin> set pref"
    by simp_all
  from assms(2,3) have pin: "p \<in> set pref" by auto
  with ne have "p \<noteq> []" by auto
  with pin have "startIndex pref (Some p) = Suc i"
    using first_occurrence_length [OF assms(2,3,4)] by (simp add: startIndex_in)
  then have eq: "getNextAvailableProvider e t (Some p) =
           Inr (map not_available_msg
                  (takeWhile (\<lambda>q. \<not> isProviderAvailable e q) (drop (Suc i) pref)),
                find (isProviderAvailable e) (drop (Suc i) pref))"
    using getNext_Own [OF assms(1), of e "Some p"] by simp
  have "q \<noteq> p \<and> q \<notin> set (take (Suc i) pref) \<and> (\<exists>k. i < k \<and> k < length pref \<and> pref ! k = q)"
    if "find (isProviderAvailable e) (drop (Suc i) pref) = Some q" for q
  proof -
    from that have qd: "q \<in> set (drop (Suc i) pref)"
      by (metis find_Some_iff nth_mem)
    have disj: "set (take (Suc i) pref) \<inter> set (drop (Suc i) pref) = {}"
      using dist distinct_append [of "take (Suc i) pref" "drop (Suc i) pref"] by simp
    with qd have notin: "q \<notin> set (take (Suc i) pref)" by auto
    have "i < length (take (Suc i) pref)" using assms(2) by simp
    then have "take (Suc i) pref ! i \<in> set (take (Suc i) pref)" by (rule nth_mem)
    with assms(3) have "p \<in> set (take (Suc i) pref)" by simp
    with notin have "q \<noteq> p" by auto
    from qd obtain m where "m < length (drop (Suc i) pref)" "drop (Suc i) pref ! m = q"
      by (auto simp: in_set_conv_nth)
    then have "i < Suc i + m \<and> Suc i + m < length pref \<and> pref ! (Suc i + m) = q"
      by auto
    then have "\<exists>k. i < k \<and> k < length pref \<and> pref ! k = q" by blast
    with notin \<open>q \<noteq> p\<close> show ?thesis by simp
  qed
  with eq show ?thesis by simp
qed

theorem getNextAvailableProvider_after_current_witness:
  "js_get PROVIDER_PREFERENCE ''ask'' =
     Own [''apizh-cost'', ''openai'', ''modelbox'', ''openrouter'', ''gemini'',
          ''anthropic'', ''perplexity'', ''apizh'']
   \<and> [''apizh-cost'', ''openai'', ''modelbox'', ''openrouter'', ''gemini'',
       ''anthropic'', ''perplexity'', ''apizh''] ! 1 = ''openai''
   \<and> getNextAvailableProvider [''OPENAI_API_KEY'' \<mapsto> ''o-key'', ''GEMINI_API_KEY'' \<mapsto> ''g-key'']
        ''ask'' (Some ''openai'') =
       Inr ([not_available_msg ''modelbox'', not_available_msg ''openrouter''], Some ''gemini'')"
proof -
  let ?L = "[''apizh-cost'', ''openai'', ''modelbox'', ''openrouter'', ''gemini'',
             ''anthropic'', ''perplexity'', ''apizh'']"
  let ?e = "[''OPENAI_API_KEY'' \<mapsto> ''o-key'', ''GEMINI_API_KEY'' \<mapsto> ''g-key'']"
  have h2: "(1::nat) < length ?L" by simp
  have h3: "?L ! 1 = ''openai''" by simp
  have h4: "\<forall>j<(1::nat). ?L ! j \<noteq> ''openai''" by simp
  have av: "isProviderAvailable ?e ''gemini''" "\<not> isProviderAvailable ?e ''modelbox''"
    "\<not> isProviderAvailable ?e ''openrouter''"
    by (simp_all add: isProviderAvailable_eval truthy_str_def)
  from getNextAvailableProvider_after_current [OF ask_list h2 h3 h4, of ?e]
  have "getNextAvailableProvider ?e ''ask'' (Some ''openai'') =
           Inr (map not_available_msg
                  (takeWhile (\<lambda>q. \<not> isProviderAvailable ?e q) (drop (Suc 1) ?L)),
                find (isProviderAvailable ?e) (drop (Suc 1) ?L))" by blast
  with av have "getNextAvailableProvider ?e ''ask'' (Some ''openai'') =
       Inr ([not_available_msg ''modelbox'', not_available_msg ''openrouter''], Some ''gemini'')"
    by simp
  with ask_list h3 show ?thesis by blast
qed

subsection \<open>Exhaustion is a result, not an error\<close>

text \<open>
  Claim C3. When no provider of the registered list of \<open>t\<close> is available, the call returns
  \<open>undefined\<close> (and does not throw) for every value of \<open>currentProvider\<close>, omitted included.
\<close>

theorem getNextAvailableProvider_exhausted:
  assumes "js_get PROVIDER_PREFERENCE t = Own pref"
    and "\<forall>q \<in> set pref. \<not> isProviderAvailable e q"
  shows "\<forall>cur. \<exists>logs. getNextAvailableProvider e t cur = Inr (logs, None)"
proof
  fix cur
  have "find (isProviderAvailable e) (drop (startIndex pref cur) pref) = None"
    using assms(2) by (auto simp: find_None_iff dest: in_set_dropD)
  then show "\<exists>logs. getNextAvailableProvider e t cur = Inr (logs, None)"
    using getNext_Own [OF assms(1), of e cur] by simp
qed

theorem getNextAvailableProvider_exhausted_witness:
  "js_get PROVIDER_PREFERENCE ''ask'' =
     Own [''apizh-cost'', ''openai'', ''modelbox'', ''openrouter'', ''gemini'',
          ''anthropic'', ''perplexity'', ''apizh'']
   \<and> (\<exists>logs. getNextAvailableProvider [''XAI_API_KEY'' \<mapsto> ''x-key''] ''ask'' None = Inr (logs, None))
   \<and> (\<exists>logs. getNextAvailableProvider [''XAI_API_KEY'' \<mapsto> ''x-key''] ''ask'' (Some ''openai'')
          = Inr (logs, None))
   \<and> (\<exists>logs. getNextAvailableProvider [''XAI_API_KEY'' \<mapsto> ''x-key''] ''ask'' (Some ''xai'')
          = Inr (logs, None))"
proof -
  let ?L = "[''apizh-cost'', ''openai'', ''modelbox'', ''openrouter'', ''gemini'',
             ''anthropic'', ''perplexity'', ''apizh'']"
  let ?e = "[''XAI_API_KEY'' \<mapsto> ''x-key'']"
  have h: "\<forall>q \<in> set ?L. \<not> isProviderAvailable ?e q"
    by (simp add: isProviderAvailable_eval truthy_str_def)
  from getNextAvailableProvider_exhausted [OF ask_list h] ask_list
  show ?thesis by blast
qed

subsection \<open>A current provider that is not in the list\<close>

text \<open>
  Claim C7. When \<open>p\<close> does not occur in the registered list of \<open>t\<close>, the call with
  \<open>currentProvider = p\<close> starts at index 0 and gives the same result (returned provider
  and logged skips) as the call with \<open>currentProvider\<close> omitted, in every environment.
\<close>

theorem getNextAvailableProvider_unlisted_current:
  assumes "js_get PROVIDER_PREFERENCE t = Own pref" and "p \<notin> set pref"
  shows "getNextAvailableProvider e t (Some p) = getNextAvailableProvider e t None
       \<and> startIndex pref (Some p) = 0"
  using assms by (simp add: getNextAvailableProvider_def startIndex_notin startIndex_None)

theorem getNextAvailableProvider_unlisted_current_witness:
  "js_get PROVIDER_PREFERENCE ''ask'' =
     Own [''apizh-cost'', ''openai'', ''modelbox'', ''openrouter'', ''gemini'',
          ''anthropic'', ''perplexity'', ''apizh'']
   \<and> ''xai'' \<notin> set [''apizh-cost'', ''openai'', ''modelbox'', ''openrouter'', ''gemini'',
          ''anthropic'', ''perplexity'', ''apizh'']
   \<and> getNextAvailableProvider [''GEMINI_API_KEY'' \<mapsto> ''g-key''] ''ask'' (Some ''xai'') =
       getNextAvailableProvider [''GEMINI_API_KEY'' \<mapsto> ''g-key''] ''ask'' None"
proof -
  let ?L = "[''apizh-cost'', ''openai'', ''modelbox'', ''openrouter'', ''gemini'',
             ''anthropic'', ''perplexity'', ''apizh'']"
  have h: "''xai'' \<notin> set ?L" by simp
  from getNextAvailableProvider_unlisted_current [OF ask_list h] ask_list h
  show ?thesis by blast
qed

subsection \<open>Command types without a registered preference list\<close>

text \<open>
  Claim C4. The identifier \<open>constructor\<close> has no registered preference list, yet the lookup
  in the table finds the inherited \<open>Object\<close> function, the guard does not throw, and the
  call with \<open>currentProvider\<close> omitted returns \<open>undefined\<close> after one logged skip, in
  every environment; with a non-empty \<open>currentProvider\<close> it ends in a \<open>TypeError\<close>
  instead of the guard's error.
\<close>

theorem getNextAvailableProvider_constructor:
  "map_of PROVIDER_PREFERENCE ''constructor'' = None
   \<and> getNextAvailableProvider e ''constructor'' None =
       Inr ([''Provider undefined is not available''], None)
   \<and> getNextAvailableProvider e ''constructor'' (Some ''openai'') =
       Inl (TypeError ''preferenceOrder.indexOf is not a function'')"
  by (simp add: getNextAvailableProvider_def js_get_def PROVIDER_PREFERENCE_def
      Object_prototype_def truthy_str_def not_available_msg_def)

subsection \<open>The scenario for the command type ask\<close>

text \<open>
  Claim C5, as stated, gives the preference list of \<open>ask\<close> as
  \<open>[apizh-cost, openai, gemini, apizh]\<close>. The table registers a different list.
\<close>

theorem ask_preference_list_counterexample:
  "js_get PROVIDER_PREFERENCE ''ask'' \<noteq> Own [''apizh-cost'', ''openai'', ''gemini'', ''apizh'']"
  by (simp add: js_get_def PROVIDER_PREFERENCE_def)

text \<open>
  Claim C5, amended. The preference list of \<open>ask\<close> is \<open>[apizh-cost, openai, modelbox,
  openrouter, gemini, anthropic, perplexity, apizh]\<close>. In an environment where exactly
  \<open>OPENAI_API_KEY\<close> and \<open>GEMINI_API_KEY\<close> are set, to non-empty values, the call for
  \<open>ask\<close> returns \<open>openai\<close>; after \<open>openai\<close> it returns \<open>gemini\<close>; after \<open>gemini\<close> it
  returns \<open>undefined\<close>.
\<close>

theorem ask_scenario:
  assumes "v1 \<noteq> []" and "v2 \<noteq> []"
  shows "js_get PROVIDER_PREFERENCE ''ask'' =
           Own [''apizh-cost'', ''openai'', ''modelbox'', ''openrouter'', ''gemini'',
                ''anthropic'', ''perplexity'', ''apizh'']
       \<and> getNextAvailableProvider [''OPENAI_API_KEY'' \<mapsto> v1, ''GEMINI_API_KEY'' \<mapsto> v2] ''ask'' None =
           Inr ([not_available_msg ''apizh-cost''], Some ''openai'')
       \<and> getNextAvailableProvider [''OPENAI_API_KEY'' \<mapsto> v1, ''GEMINI_API_KEY'' \<mapsto> v2] ''ask''
             (Some ''openai'') =
           Inr ([not_available_msg ''modelbox'', not_available_msg ''openrouter''], Some ''gemini'')
       \<and> getNextAvailableProvider [''OPENAI_API_KEY'' \<mapsto> v1, ''GEMINI_API_KEY'' \<mapsto> v2] ''ask''
             (Some ''gemini'') =
           Inr ([not_available_msg ''anthropic'', not_available_msg ''perplexity'',
                 not_available_msg ''apizh''], None)"
proof -
  let ?e = "[''OPENAI_API_KEY'' \<mapsto> v1, ''GEMINI_API_KEY'' \<mapsto> v2]"
  have av: "isProviderAvailable ?e ''openai''" "isProviderAvailable ?e ''gemini''"
    "\<not> isProviderAvailable ?e ''apizh-cost''" "\<not> isProviderAvailable ?e ''modelbox''"
    "\<not> isProviderAvailable ?e ''openrouter''" "\<not> isProviderAvailable ?e ''anthropic''"
    "\<not> isProviderAvailable ?e ''perplexity''" "\<not> isProviderAvailable ?e ''apizh''"
    using assms by (simp_all add: isProviderAvailable_eval truthy_str_def)
  have r0: "getNextAvailableProvider ?e ''ask'' None =
           Inr ([not_available_msg ''apizh-cost''], Some ''openai'')"
    unfolding getNext_Own [OF ask_list] ask_startIndex using av by simp
  have r1: "getNextAvailableProvider ?e ''ask'' (Some ''openai'') =
           Inr ([not_available_msg ''modelbox'', not_available_msg ''openrouter''], Some ''gemini'')"
    unfolding getNext_Own [OF ask_list] ask_startIndex using av by simp
  have r2: "getNextAvailableProvider ?e ''ask'' (Some ''gemini'') =
           Inr ([not_available_msg ''anthropic'', not_available_msg ''perplexity'',
                 not_available_msg ''apizh''], None)"
    unfolding getNext_Own [OF ask_list] ask_startIndex using av by simp
  from ask_list r0 r1 r2 show ?thesis by simp
qed

theorem ask_scenario_witness:
  "getNextAvailableProvider [''OPENAI_API_KEY'' \<mapsto> ''sk-1'', ''GEMINI_API_KEY'' \<mapsto> ''g-1''] ''ask'' None =
     Inr ([''Provider apizh-cost is not available''], Some ''openai'')
   \<and> getNextAvailableProvider [''OPENAI_API_KEY'' \<mapsto> ''sk-1'', ''GEMINI_API_KEY'' \<mapsto> ''g-1''] ''ask''
        (Some ''openai'') =
     Inr ([''Provider modelbox is not available'', ''Provider openrouter is not available''],
          Some ''gemini'')
   \<and> getNextAvailableProvider [''OPENAI_API_KEY'' \<mapsto> ''sk-1'', ''GEMINI_API_KEY'' \<mapsto> ''g-1''] ''ask''
        (Some ''gemini'') =
     Inr ([''Provider anthropic is not available'', ''Provider perplexity is not available'',
           ''Provider apizh is not available''], None)"
proof -
  have h1: "''sk-1'' \<noteq> []" and h2: "''g-1'' \<noteq> []" by simp_all
  from ask_scenario [OF h1 h2] show ?thesis by (simp add: not_available_msg_def)
qed

subsection \<open>Default models\<close>

text \<open>
  Claim C6, as stated, has \<open>getDefaultModel\<close> throw for an identifier outside the closed
  set. The function has no guard: for \<open>nonexistent\<close> it returns \<open>undefined\<close>.
\<close>

theorem getDefaultModel_unknown_counterexample:
  "getDefaultModel ''nonexistent'' = Inr Undefined"
  by (simp add: getDefaultModel_def js_get_def DEFAULT_MODELS_def Object_prototype_def)

text \<open>
  Claim C6, amended. \<open>getDefaultModel\<close> throws for no identifier at all; for every
  identifier of the closed set (the keys of \<open>DEFAULT_MODELS\<close>) it returns that provider's
  default model as registered in the table.
\<close>

theorem getDefaultModel_lookup:
  "(\<forall>err. getDefaultModel p \<noteq> Inl err)
   \<and> (p \<in> fst ` set DEFAULT_MODELS \<longrightarrow>
        (\<exists>m. getDefaultModel p = Inr (Own m) \<and> (p, m) \<in> set DEFAULT_MODELS
              \<and> map_of DEFAULT_MODELS p = Some m))"
proof -
  have "\<exists>m. getDefaultModel p = Inr (Own m) \<and> (p, m) \<in> set DEFAULT_MODELS
            \<and> map_of DEFAULT_MODELS p = Some m"
    if "p \<in> fst ` set DEFAULT_MODELS"
  proof -
    from that obtain m where "map_of DEFAULT_MODELS p = Some m"
      by (metis map_of_eq_None_iff not_Some_eq)
    then show ?thesis
      by (auto simp: getDefaultModel_def js_get_def dest: map_of_SomeD)
  qed
  then show ?thesis by (simp add: getDefaultModel_def)
qed

theorem getDefaultModel_lookup_witness:
  "''openai'' \<in> fst ` set DEFAULT_MODELS \<and> getDefaultModel ''openai'' = Inr (Own ''gpt-4.1'')"
proof -
  have h: "''openai'' \<in> fst ` set DEFAULT_MODELS"
    by (simp add: DEFAULT_MODELS_def)
  with getDefaultModel_lookup [of "''openai''"]
  obtain m where "getDefaultModel ''openai'' = Inr (Own m)" "map_of DEFAULT_MODELS ''openai'' = Some m"
    by blast
  moreover have "map_of DEFAULT_MODELS ''openai'' = Some ''gpt-4.1''"
    by (simp add: DEFAULT_MODELS_def)
  ultimately show ?thesis using h by simp
qed

subsection \<open>Agreement of the availability queries\<close>

text \<open>
  Claim C8. In a fixed environment, for every identifier: if the list returned by
  \<open>getAllProviders\<close> has an entry for it, that entry is the one \<open>getProviderInfo\<close> finds
  and \<open>isProviderAvailable\<close> equals its \<open>available\<close> field; if the list has no entry for
  it, \<open>isProviderAvailable\<close> is \<open>false\<close>, a value and not an error. Moreover
  \<open>getAvailableProviders\<close> is \<open>getAllProviders\<close> filtered to the available entries.
\<close>

theorem isProviderAvailable_agrees:
  "(\<forall>info \<in> set (getAllProviders e). provider info = ident \<longrightarrow>
        getProviderInfo e ident = Some info \<and> isProviderAvailable e ident = available info)
   \<and> (ident \<notin> provider ` set (getAllProviders e) \<longrightarrow>
        getProviderInfo e ident = None \<and> isProviderAvailable e ident = False)
   \<and> getAvailableProviders e = filter (\<lambda>info. available info = True) (getAllProviders e)"
proof -
  have a: "getProviderInfo e ident = Some info \<and> isProviderAvailable e ident = available info"
    if "info \<in> set (getAllProviders e)" "provider info = ident" for info
    using that find_distinct_key [OF providers_distinct, of info e]
    by (auto simp: isProviderAvailable_def getProviderInfo_def info_available_def)
  have b: "getProviderInfo e ident = None \<and> \<not> isProviderAvailable e ident"
    if "ident \<notin> provider ` set (getAllProviders e)"
  proof -
    from that have "getProviderInfo e ident = None"
      unfolding getProviderInfo_def find_None_iff by blast
    then show ?thesis by (simp add: isProviderAvailable_def info_available_def)
  qed
  from a b show ?thesis by (simp add: getAvailableProviders_def)
qed

theorem isProviderAvailable_agrees_witness:
  "mkInfo ''gemini'' True \<in> set (getAllProviders [''GEMINI_API_KEY'' \<mapsto> ''g-key''])
   \<and> getProviderInfo [''GEMINI_API_KEY'' \<mapsto> ''g-key''] ''gemini'' = Some (mkInfo ''gemini'' True)
   \<and> isProviderAvailable [''GEMINI_API_KEY'' \<mapsto> ''g-key''] ''gemini'' = True
   \<and> ''nonexistent'' \<notin> provider ` set (getAllProviders [''GEMINI_API_KEY'' \<mapsto> ''g-key''])
   \<and> isProviderAvailable [''GEMINI_API_KEY'' \<mapsto> ''g-key''] ''nonexistent'' = False
   \<and> getAvailableProviders [''GEMINI_API_KEY'' \<mapsto> ''g-key''] = [mkInfo ''gemini'' True]"
proof -
  let ?e = "[''GEMINI_API_KEY'' \<mapsto> ''g-key'']"
  have h1: "mkInfo ''gemini'' True \<in> set (getAllProviders ?e)"
    by (simp add: getAllProviders_def mkInfo_def truthy_str_def Let_def)
  have h2: "provider (mkInfo ''gemini'' True) = ''gemini''"
    by (simp add: mkInfo_def)
  have h3: "''nonexistent'' \<notin> provider ` set (getAllProviders ?e)"
    by (simp add: getAllProviders_def mkInfo_def Let_def)
  have f: "filter (\<lambda>info. available info = True) (getAllProviders ?e) = [mkInfo ''gemini'' True]"
    by (simp add: getAllProviders_def mkInfo_def truthy_str_def Let_def)
  from isProviderAvailable_agrees [of ?e "''gemini''"] h1 h2
  have g: "getProviderInfo ?e ''gemini'' = Some (mkInfo ''gemini'' True)"
    "isProviderAvailable ?e ''gemini'' = True"
    "getAvailableProviders ?e = filter (\<lambda>info. available info = True) (getAllProviders ?e)"
    by (auto simp: mkInfo_def)
  from isProviderAvailable_agrees [of ?e "''nonexistent''"] h3
  have n: "isProviderAvailable ?e ''nonexistent'' = False" by blast
  from h1 h3 g n f show ?thesis by simp
qed

section \<open>Properties of the streaming contract\<close>

subsection \<open>Helper lemmas\<close>

lemma yield_star_Return: "yield_star g Return = g"
  by (induction g) simp_all

lemma try_catch_rethrow: "try_catch g (\<lambda>error. Throw error) = g"
  by (induction g) simp_all

lemma for_await_eq: "for_await g = map Value (yielded g) @ [ending g]"
  by (induction g) simp_all

lemma pulls_closed: "pulls n Return = replicate n Done"
  by (induction n) simp_all

lemma take_cons_replicate: "take n (x # replicate n x) = replicate n x"
proof -
  have "take n (replicate (Suc n) x) = replicate n x"
    by (simp only: take_replicate) simp
  then show ?thesis by simp
qed

lemma pulls_eq: "pulls n g = take n (for_await g @ replicate n Done)"
proof (induction n arbitrary: g)
  case 0
  show ?case by simp
next
  case (Suc n)
  show ?case
  proof (cases g)
    case (Yield c g')
    have "take n (for_await g' @ replicate (Suc n) Done) = take n (for_await g' @ replicate n Done)"
      by (simp add: take_Suc_conv_app_nth replicate_append_same [symmetric] del: replicate_Suc)
    with Yield Suc show ?thesis by simp
  next
    case Return
    then show ?thesis by (simp add: pulls_closed take_cons_replicate)
  next
    case (Throw x)
    then show ?thesis by (simp add: pulls_closed take_cons_replicate)
  qed
qed

text \<open>For a query that is not blank the command is its delegate: same chunks, same ending.\<close>

lemma NixCommand_execute_delegates:
  "\<not> blank query \<Longrightarrow>
   NixCommand_execute help assist query options = assist query options"
  by (simp add: NixCommand_execute_def yield_star_Return try_catch_rethrow)

lemma NixCommand_execute_blank:
  "blank query \<Longrightarrow> NixCommand_execute help assist query options = Yield help Return"
  by (simp add: NixCommand_execute_def)

subsection \<open>Order of delivery\<close>

text \<open>
  Claim C9. Whatever the producer \<open>g\<close>, a caller iterating with \<open>for await\<close> observes the
  chunks of \<open>g\<close> one by one in the order \<open>g\<close> yields them, followed by the way \<open>g\<close> ends,
  and a caller making \<open>n\<close> calls of \<open>next()\<close> observes the first \<open>n\<close> of these signals,
  with only done signals after the ending. \<open>NixCommand.execute\<close> hands on the chunks and
  the ending of its delegate unchanged (for a blank query it yields its help text and
  returns). A producer that yields \<open>He\<close>, then \<open>llo\<close>, then throws \<open>E\<close> is observed as
  \<open>He\<close>, \<open>llo\<close>, the error \<open>E\<close>, and no chunk after the error.
\<close>

theorem chunks_delivered_in_order:
  "for_await g = map Value (yielded g) @ [ending g]
   \<and> pulls n g = take n (map Value (yielded g) @ ending g # replicate n Done)
   \<and> for_await (NixCommand_execute help assist query options) =
       (if blank query then [Value help, Done]
        else map Value (yielded (assist query options)) @ [ending (assist query options)])
   \<and> pulls n (NixCommand_execute help assist query options) =
       take n (if blank query then Value help # Done # replicate n Done
               else map Value (yielded (assist query options))
                    @ ending (assist query options) # replicate n Done)
   \<and> for_await (Yield ''He'' (Yield ''llo'' (Throw E))) = [Value ''He'', Value ''llo'', Raised E]
   \<and> pulls 5 (Yield ''He'' (Yield ''llo'' (Throw E))) =
       [Value ''He'', Value ''llo'', Raised E, Done, Done]
   \<and> for_await (NixCommand_execute help (\<lambda>q opts. Yield ''He'' (Yield ''llo'' (Throw E)))
        ''build'' options) = [Value ''He'', Value ''llo'', Raised E]"
proof -
  have nb: "\<not> blank ''build''"
    by (simp add: blank_def js_whitespace_def)
  have p5: "pulls 5 (Yield ''He'' (Yield ''llo'' (Throw E))) =
       [Value ''He'', Value ''llo'', Raised E, Done, Done]"
    by (simp add: eval_nat_numeral)
  show ?thesis
  proof (cases "blank query")
    case True
    with nb p5 show ?thesis
      by (simp add: NixCommand_execute_blank NixCommand_execute_delegates pulls_eq for_await_eq)
  next
    case False
    with nb p5 show ?thesis
      by (simp add: NixCommand_execute_delegates pulls_eq for_await_eq)
  qed
qed

section \<open>Properties of AskCommand.execute\<close>

subsection \<open>Helper lemmas\<close>

lemma AskCommand_no_provider:
  assumes "getAvailableProviders e = []"
  shows "AskCommand_execute w e config query options =
           Throw (ProviderError no_providers_message None)"
  using assms by (simp add: AskCommand_execute_def getAvailableProviders_def)

lemma AskCommand_unrecognized:
  assumes "getAvailableProviders e \<noteq> []"
    and "getProviderInfo e (providerName_of config options) = None"
  shows "AskCommand_execute w e config query options =
           Throw (ProviderError
             (invalid_provider_message (providerName_of config options) (getAvailableProviders e))
             None)"
  using assms
  by (simp add: AskCommand_execute_def getAvailableProviders_def getProviderInfo_def)

lemma AskCommand_unavailable:
  assumes "getAvailableProviders e \<noteq> []"
    and "getProviderInfo e (providerName_of config options) = Some info"
    and "\<not> available info"
  shows "AskCommand_execute w e config query options =
           Throw (ProviderError
             (unavailable_provider_message (providerName_of config options) (getAvailableProviders e))
             None)"
  using assms
  by (simp add: AskCommand_execute_def getAvailableProviders_def getProviderInfo_def)

text \<open>
  Once the provider name is that of an available provider, the model is chosen and the
  client is created, the outcome is decided by the \<open>try\<close> block alone.
\<close>

lemma AskCommand_reaches_call:
  assumes "isProviderAvailable e (providerName_of config options)"
    and "resolveModel w (providerName_of config options) options = Inr model"
    and "createProvider w (providerName_of config options) = Inr client"
  shows "AskCommand_execute w e config query options =
          (case try_body client options (providerName_of config options) model
                  (finalQuery_of w query options)
                  (modelOptions_of config options model
                     (num_or (opt options opt_maxTokens) (defaultMaxTokens w))) of
             Inl error \<Rightarrow>
               Throw (ProviderError
                 (message_or error ''Unknown error during ask command execution'') (Some error))
           | Inr answer \<Rightarrow> Yield answer Return)"
proof -
  from assms(1) obtain info where
    f: "find (\<lambda>p. provider p = providerName_of config options) (getAllProviders e) = Some info"
    and a: "available info"
    by (auto simp: isProviderAvailable_def getProviderInfo_def info_available_def
        split: option.splits)
  from f have "info \<in> set (getAllProviders e)"
    by (metis find_Some_iff nth_mem)
  with a have "filter available (getAllProviders e) \<noteq> []"
    by (auto simp: filter_empty_conv)
  with f a assms(2,3) show ?thesis
    by (simp add: AskCommand_execute_def Let_def)
qed

text \<open>The generator never yields more than one chunk.\<close>

lemma AskCommand_at_most_one_chunk:
  "(\<exists>err. AskCommand_execute w e config query options = Throw err)
   \<or> (\<exists>answer. AskCommand_execute w e config query options = Yield answer Return)"
  by (simp add: AskCommand_execute_def Let_def split: option.splits sum.splits)

lemma example_resolveModel:
  "resolveModel example_collaborators ''openai'' (Some (example_options callback)) = Inr ''gpt-4.1''"
  by (simp add: resolveModel_def str_or_def opt_def example_options_def otherProviderModels_def)

lemma example_providerName:
  "providerName_of example_config (Some (example_options callback)) = ''openai''"
  by (simp add: providerName_of_def str_or_def opt_def example_options_def)

lemma example_available: "isProviderAvailable [''OPENAI_API_KEY'' \<mapsto> ''sk-1''] ''openai''"
  by (simp add: isProviderAvailable_eval truthy_str_def)

lemma example_createProvider: "createProvider example_collaborators ''openai'' = Inr example_client"
  by (simp add: example_collaborators_def)

lemma example_executePrompt: "executePrompt example_client q m = Inr ''42''"
  by (simp add: example_client_def)

subsection \<open>Errors before the first chunk, one chunk on success\<close>

text \<open>
  Claim C10, as stated, has the generator yield the answer whenever the provider call
  succeeds. The telemetry callback of the options runs inside the same \<open>try\<close> block after
  the call: when it throws, the answer is dropped and the generator throws a
  \<open>ProviderError\<close> without yielding.
\<close>

theorem AskCommand_telemetry_counterexample:
  "createProvider example_collaborators ''openai'' = Inr example_client
   \<and> executePrompt example_client
        (finalQuery_of example_collaborators ''6 x 7''
           (Some (example_options (Some (\<lambda>data. Some (Error ''disk full''))))))
        (modelOptions_of example_config
           (Some (example_options (Some (\<lambda>data. Some (Error ''disk full''))))) ''gpt-4.1'' 8000)
       = Inr ''42''
   \<and> AskCommand_execute example_collaborators [''OPENAI_API_KEY'' \<mapsto> ''sk-1''] example_config
       ''6 x 7'' (Some (example_options (Some (\<lambda>data. Some (Error ''disk full''))))) =
     Throw (ProviderError ''disk full'' (Some (Error ''disk full'')))"
proof -
  let ?o = "Some (example_options (Some (\<lambda>data. Some (Error ''disk full''))))"
  have t: "trackTelemetry ?o d = Some (Error ''disk full'')" for d
    by (simp add: trackTelemetry_def opt_def example_options_def)
  have "AskCommand_execute example_collaborators [''OPENAI_API_KEY'' \<mapsto> ''sk-1''] example_config
       ''6 x 7'' ?o = Throw (ProviderError ''disk full'' (Some (Error ''disk full'')))"
    using AskCommand_reaches_call [of "[''OPENAI_API_KEY'' \<mapsto> ''sk-1'']" example_config ?o
        example_collaborators "''gpt-4.1''" example_client "''6 x 7''"]
    by (simp add: example_providerName example_available example_resolveModel
        example_createProvider try_body_def example_executePrompt t)
  with example_executePrompt example_createProvider show ?thesis by simp
qed

text \<open>
  Claim C10, amended. When no provider is available, or the resolved provider name has no
  entry in the registry, or its provider is unavailable, the generator throws a
  \<open>ProviderError\<close> (without details) before yielding any chunk. When the provider call
  succeeds and the telemetry callback, if the options carry one, returns normally, the
  generator yields exactly one chunk, the answer, and then completes.
\<close>

theorem AskCommand_execute_outcomes:
  "(getAvailableProviders e = []
      \<or> getProviderInfo e (providerName_of config options) = None
      \<or> \<not> isProviderAvailable e (providerName_of config options)
    \<longrightarrow> (\<exists>msg. AskCommand_execute w e config query options = Throw (ProviderError msg None)))
   \<and> (isProviderAvailable e (providerName_of config options)
        \<and> resolveModel w (providerName_of config options) options = Inr model
        \<and> createProvider w (providerName_of config options) = Inr client
        \<and> executePrompt client (finalQuery_of w query options)
             (modelOptions_of config options model
                (num_or (opt options opt_maxTokens) (defaultMaxTokens w))) = Inr answer
        \<and> trackTelemetry options
             (telemetry_of client (providerName_of config options) model) = None
    \<longrightarrow> AskCommand_execute w e config query options = Yield answer Return
        \<and> for_await (AskCommand_execute w e config query options) = [Value answer, Done])"
proof -
  let ?pn = "providerName_of config options"
  have A: "\<exists>msg. AskCommand_execute w e config query options = Throw (ProviderError msg None)"
    if h: "getAvailableProviders e = [] \<or> getProviderInfo e ?pn = None
           \<or> \<not> isProviderAvailable e ?pn"
  proof (cases "getAvailableProviders e = []")
    case True
    then show ?thesis by (simp add: AskCommand_no_provider)
  next
    case ne: False
    show ?thesis
    proof (cases "getProviderInfo e ?pn")
      case None
      with ne show ?thesis by (simp add: AskCommand_unrecognized)
    next
      case (Some info)
      with h ne have "\<not> available info"
        by (simp add: isProviderAvailable_def info_available_def)
      with ne Some show ?thesis by (simp add: AskCommand_unavailable)
    qed
  qed
  have B: "AskCommand_execute w e config query options = Yield answer Return"
    if "isProviderAvailable e ?pn" "resolveModel w ?pn options = Inr model"
       "createProvider w ?pn = Inr client"
       "executePrompt client (finalQuery_of w query options)
             (modelOptions_of config options model
                (num_or (opt options opt_maxTokens) (defaultMaxTokens w))) = Inr answer"
       "trackTelemetry options (telemetry_of client ?pn model) = None"
    using that by (simp add: AskCommand_reaches_call try_body_def)
  from A B show ?thesis by simp
qed

theorem AskCommand_execute_outcomes_witness:
  "isProviderAvailable [''OPENAI_API_KEY'' \<mapsto> ''sk-1'']
      (providerName_of example_config (Some (example_options None)))
   \<and> AskCommand_execute example_collaborators [''OPENAI_API_KEY'' \<mapsto> ''sk-1''] example_config
       ''6 x 7'' (Some (example_options None)) = Yield ''42'' Return
   \<and> getAvailableProviders Map.empty = []
   \<and> (\<exists>msg. AskCommand_execute example_collaborators Map.empty example_config
       ''6 x 7'' (Some (example_options None)) = Throw (ProviderError msg None))"
proof -
  let ?o = "Some (example_options None)"
  let ?e = "[''OPENAI_API_KEY'' \<mapsto> ''sk-1'']"
  have t: "trackTelemetry ?o d = None" for d
    by (simp add: trackTelemetry_def opt_def example_options_def)
  have a: "isProviderAvailable ?e (providerName_of example_config ?o)"
    by (simp add: example_providerName example_available)
  have n: "getAvailableProviders Map.empty = []"
    by (simp add: getAvailableProviders_def getAllProviders_def mkInfo_def truthy_str_def)
  from AskCommand_execute_outcomes [of ?e example_config ?o example_collaborators "''6 x 7''"
      "''gpt-4.1''" example_client "''42''"]
  have y: "AskCommand_execute example_collaborators ?e example_config ''6 x 7'' ?o = Yield ''42'' Return"
    by (simp add: example_providerName example_available example_resolveModel
        example_createProvider example_executePrompt t)
  from AskCommand_execute_outcomes [of Map.empty example_config ?o example_collaborators "''6 x 7''"] n
  have x: "\<exists>msg. AskCommand_execute example_collaborators Map.empty example_config
       ''6 x 7'' ?o = Throw (ProviderError msg None)"
    by blast
  from a y n x show ?thesis by blast
qed

end
